theory Spec2Isabelle
  imports Main
begin

section \<open>Errors\<close>

text \<open>
  The server package builds every error with \<open>xerrors.Errorf\<close>. A format without \<open>%w\<close>
  gives a plain error; a format \<open>"msg: %w"\<close> gives an error that carries the message and
  the wrapped cause.
\<close>

datatype error = New string | Wrapped string error

text \<open>\<open>err.Error()\<close>: a wrapping error prints its message, a colon and the cause.\<close>

fun Error :: "error \<Rightarrow> string" where
  "Error (New m) = m"
| "Error (Wrapped m e) = m @ '': '' @ Error e"

text \<open>
  \<open>xerrors.Errorf("%w", err)\<close>: the message is the formatted argument, and the cause
  is wrapped as well, so the text of the cause appears twice (the package's test expects
  \<open>"Prometheus gauge found to be nil: Prometheus gauge found to be nil"\<close>).
\<close>

definition Errorf_w :: "error \<Rightarrow> error" where
  "Errorf_w err = Wrapped (Error err) err"

text \<open>\<open>errors.Unwrap(err)\<close>: the cause that an error wraps, nil for a plain error.\<close>

fun Unwrap :: "error \<Rightarrow> error option" where
  "Unwrap (New m) = None"
| "Unwrap (Wrapped m e) = Some e"

section \<open>The state the worker acts on\<close>

text \<open>
  A \<open>prometheus.GaugeVec\<close> with the single label \<open>action\<close>: the sample of each label
  value. Samples are Unix times (\<open>float64(time.Now().Unix())\<close>), kept as integers.
\<close>

type_synonym GaugeVec = "string \<rightharpoonup> int"

text \<open>Every call that leaves the worker is recorded, in the order of execution.\<close>

datatype event =
    Gauge_Set string int
  | NeedsUpdate_call string bool bool
  | TempDir_call
  | Download_call string bool
  | DbUpdateWg_Add
  | RequestWg_Wait
  | Close_call
  | CopyFile_call string string
  | UpdateMetadata_call string
  | Init_call string
  | DbUpdateWg_Done
  | RemoveAll_call string

text \<open>
  \<open>gaugeMetric\<close> is what the pointer \<open>*prometheus.GaugeVec\<close> refers to, \<open>None\<close> for the
  nil pointer. \<open>dbUpdateWg\<close> and \<open>requestWg\<close> are the counters of the two wait groups.
  \<open>dirs\<close> are the directories that exist, and \<open>dbfile d\<close> is the content of the database
  file \<open>db.Path(d)\<close> of directory \<open>d\<close>, if there is one.
\<close>

record world =
  gaugeMetric :: "GaugeVec option"
  dbUpdateWg :: int
  requestWg :: int
  dirs :: "string set"
  dbfile :: "string \<rightharpoonup> string"
  trace :: "event list"

definition emit :: "event \<Rightarrow> world \<Rightarrow> world" where
  "emit ev s = s\<lparr>trace := trace s @ [ev]\<rparr>"

section \<open>Metrics\<close>

text \<open>\<open>gauge.With(prometheus.Labels{"action": l}).Set(t)\<close> on a gauge that is not nil.\<close>

definition gauge_Set :: "string \<Rightarrow> int \<Rightarrow> GaugeVec \<Rightarrow> world \<Rightarrow> world" where
  "gauge_Set l t g s = emit (Gauge_Set l t) (s\<lparr>gaugeMetric := Some (g(l \<mapsto> t))\<rparr>)"

text \<open>The gauge argument is the field \<open>gaugeMetric\<close> of the state.\<close>

definition updateLastDBUpdatePrometheus :: "int \<Rightarrow> bool \<Rightarrow> world \<Rightarrow> error option \<times> world" where
  "updateLastDBUpdatePrometheus time onlyDBAttempt s =
     (case gaugeMetric s of
        None \<Rightarrow> (Some (New ''Prometheus gauge found to be nil''), s)
      | Some g \<Rightarrow>
          if onlyDBAttempt then (None, gauge_Set ''last_db_update_attempt'' time g s)
          else (None, gauge_Set ''last_db_update'' time g s))"

text \<open>
  \<open>initializeMetricGauge\<close>: \<open>Get\<close> is the outcome of reading the persisted metadata
  (\<open>m.Get()\<close>), as the Unix time of \<open>UpdatedAt\<close> and the error.
\<close>

definition initializeMetricGauge :: "int \<times> error option \<Rightarrow> world \<Rightarrow> error option \<times> world" where
  "initializeMetricGauge Get s =
     (case Get of
        (updatedAt, Some err) \<Rightarrow>
          (Some (Wrapped ''Error initialising the metrics for prometheus endpoint'' err), s)
      | (updatedAt, None) \<Rightarrow>
          (case updateLastDBUpdatePrometheus updatedAt True s of
             (Some err, s1) \<Rightarrow> (Some (Errorf_w err), s1)
           | (None, s1) \<Rightarrow>
               (case updateLastDBUpdatePrometheus updatedAt False s1 of
                  (Some err, s2) \<Rightarrow> (Some (Errorf_w err), s2)
                | (None, s2) \<Rightarrow> (None, s2))))"

section \<open>The collaborators of one update cycle\<close>

text \<open>
  What the calls that leave the package answer during one cycle: the clock, the database
  client (the interface \<open>dbFile.Operation\<close>), the standard library and the database
  handle of trivy-db. \<open>Download_writes\<close> is the content that the download leaves in the
  database file of the staging directory (\<open>None\<close> when it leaves no file).
  \<open>requests_drain\<close> says whether the requests that are in flight when the worker waits
  all reach their \<open>requestWg.Done()\<close>. \<open>CopyFile_io\<close> is the error of the copy, and
  \<open>failed_copy_leaves\<close> gives, from what the destination held, what it holds after a copy
  that failed.
\<close>

record env =
  now_attempt :: int
  now_success :: int
  NeedsUpdate :: "string \<Rightarrow> bool \<Rightarrow> bool \<Rightarrow> bool \<times> error option"
  TempDir :: "string \<times> error option"
  Download :: "string \<Rightarrow> bool \<Rightarrow> error option"
  Download_writes :: "string option"
  requests_drain :: bool
  db_Close :: "error option"
  CopyFile_io :: "error option"
  failed_copy_leaves :: "string option \<Rightarrow> string option"
  UpdateMetadata :: "string \<Rightarrow> error option"
  db_Init :: "string \<Rightarrow> error option"

definition call_NeedsUpdate ::
  "env \<Rightarrow> string \<Rightarrow> bool \<Rightarrow> bool \<Rightarrow> world \<Rightarrow> (bool \<times> error option) \<times> world" where
  "call_NeedsUpdate e appVersion light skip s =
     (NeedsUpdate e appVersion light skip, emit (NeedsUpdate_call appVersion light skip) s)"

text \<open>\<open>ioutil.TempDir("", "db")\<close>: on success the directory exists and is empty.\<close>

definition ioutil_TempDir :: "env \<Rightarrow> world \<Rightarrow> (string \<times> error option) \<times> world" where
  "ioutil_TempDir e s =
     (case TempDir e of
        (d, Some err) \<Rightarrow> ((d, Some err), emit TempDir_call s)
      | (d, None) \<Rightarrow> ((d, None), emit TempDir_call (s\<lparr>dirs := insert d (dirs s)\<rparr>)))"

text \<open>\<open>os.RemoveAll(d)\<close>: the directory and the file in it are gone.\<close>

definition os_RemoveAll :: "string \<Rightarrow> world \<Rightarrow> world" where
  "os_RemoveAll d s =
     emit (RemoveAll_call d) (s\<lparr>dirs := dirs s - {d}, dbfile := (dbfile s)(d := None)\<rparr>)"

definition call_Download :: "env \<Rightarrow> string \<Rightarrow> bool \<Rightarrow> world \<Rightarrow> error option \<times> world" where
  "call_Download e dst quiet s =
     (Download e dst quiet,
      emit (Download_call dst quiet) (s\<lparr>dbfile := (dbfile s)(dst := Download_writes e)\<rparr>))"

definition call_db_Close :: "env \<Rightarrow> world \<Rightarrow> error option \<times> world" where
  "call_db_Close e s = (db_Close e, emit Close_call s)"

text \<open>
  Modelled from the spec: \<open>utils.CopyFile\<close> is not among the sources. The copy fails when
  the source file is missing or when it reports the error \<open>CopyFile_io\<close>, and otherwise
  succeeds with the whole source in the destination. The spec asks for an all-or-nothing
  replace of the live file, that is, for a failed copy that leaves the destination as it
  was: what a failed copy leaves is the parameter \<open>failed_copy_leaves\<close>, and the spec's
  requirement on it is \<open>failed_copy_leaves e old = old\<close>. The two arguments are the
  directories whose database files are copied.
\<close>

definition CopyFile :: "env \<Rightarrow> string \<Rightarrow> string \<Rightarrow> world \<Rightarrow> error option \<times> world" where
  "CopyFile e src dst s =
     (case dbfile s src of
        None \<Rightarrow>
          (Some (New ''no such file or directory''),
           emit (CopyFile_call src dst)
             (s\<lparr>dbfile := (dbfile s)(dst := failed_copy_leaves e (dbfile s dst))\<rparr>))
      | Some c \<Rightarrow>
          (case CopyFile_io e of
             Some err \<Rightarrow>
               (Some err,
                emit (CopyFile_call src dst)
                  (s\<lparr>dbfile := (dbfile s)(dst := failed_copy_leaves e (dbfile s dst))\<rparr>))
           | None \<Rightarrow>
               (None, emit (CopyFile_call src dst) (s\<lparr>dbfile := (dbfile s)(dst \<mapsto> c)\<rparr>))))"

definition call_UpdateMetadata :: "env \<Rightarrow> string \<Rightarrow> world \<Rightarrow> error option \<times> world" where
  "call_UpdateMetadata e cacheDir s = (UpdateMetadata e cacheDir, emit (UpdateMetadata_call cacheDir) s)"

definition call_db_Init :: "env \<Rightarrow> string \<Rightarrow> world \<Rightarrow> error option \<times> world" where
  "call_db_Init e cacheDir s = (db_Init e cacheDir, emit (Init_call cacheDir) s)"

section \<open>The wait groups, seen from the worker\<close>

definition dbUpdateWg_Add :: "world \<Rightarrow> world" where
  "dbUpdateWg_Add s = emit DbUpdateWg_Add (s\<lparr>dbUpdateWg := dbUpdateWg s + 1\<rparr>)"

definition dbUpdateWg_Done :: "world \<Rightarrow> world" where
  "dbUpdateWg_Done s = emit DbUpdateWg_Done (s\<lparr>dbUpdateWg := dbUpdateWg s - 1\<rparr>)"

text \<open>A call either returns a value or blocks for ever.\<close>

datatype 'a outcome = Returns 'a | Blocks

text \<open>
  \<open>requestWg.Wait()\<close> returns when the counter is zero: at once, or when the requests in
  flight have all called \<open>requestWg.Done()\<close>. When they never do, the call does not return.
\<close>

definition requestWg_Wait :: "env \<Rightarrow> world \<Rightarrow> unit outcome \<times> world" where
  "requestWg_Wait e s =
     (if requestWg s = 0 then (Returns (), emit RequestWg_Wait s)
      else if requests_drain e then (Returns (), emit RequestWg_Wait (s\<lparr>requestWg := 0\<rparr>))
      else (Blocks, emit RequestWg_Wait s))"

section \<open>The update worker\<close>

text \<open>What a \<open>defer\<close> statement of \<open>hotUpdate\<close> postpones to the function's exit.\<close>

datatype deferred = Defer_RemoveAll string | Defer_dbUpdateWg_Done

fun run_deferred :: "deferred \<Rightarrow> world \<Rightarrow> world" where
  "run_deferred (Defer_RemoveAll d) s = os_RemoveAll d s"
| "run_deferred Defer_dbUpdateWg_Done s = dbUpdateWg_Done s"

text \<open>
  The statements of \<open>hotUpdate\<close> up to its \<open>return\<close>: the returned error (or \<open>Blocks\<close>
  when the function never reaches a \<open>return\<close>), the stack of deferred calls (the last one
  deferred first) and the state.
\<close>

definition hotUpdate_body ::
  "env \<Rightarrow> string \<Rightarrow> world \<Rightarrow> error option outcome \<times> deferred list \<times> world" where
  "hotUpdate_body e cacheDir s0 =
     (case ioutil_TempDir e s0 of
        ((tmpDir, Some err), s1) \<Rightarrow>
          (Returns (Some (Wrapped ''failed to create a temp dir'' err)), [], s1)
      | ((tmpDir, None), s1) \<Rightarrow>
          (case call_Download e tmpDir False s1 of
             (Some err, s2) \<Rightarrow>
               (Returns (Some (Wrapped ''failed to download vulnerability DB'' err)),
                [Defer_RemoveAll tmpDir], s2)
           | (None, s2) \<Rightarrow>
               (let ds = [Defer_dbUpdateWg_Done, Defer_RemoveAll tmpDir] in
                case requestWg_Wait e (dbUpdateWg_Add s2) of
                  (Blocks, s3) \<Rightarrow> (Blocks, ds, s3)
                | (Returns _, s3) \<Rightarrow>
                    (case call_db_Close e s3 of
                       (Some err, s4) \<Rightarrow> (Returns (Some (Wrapped ''failed to close DB'' err)), ds, s4)
                     | (None, s4) \<Rightarrow>
                         (case CopyFile e tmpDir cacheDir s4 of
                            (Some err, s5) \<Rightarrow>
                              (Returns (Some (Wrapped ''failed to copy the database file'' err)), ds, s5)
                          | (None, s5) \<Rightarrow>
                              (case call_UpdateMetadata e cacheDir s5 of
                                 (Some err, s6) \<Rightarrow>
                                   (Returns (Some (Wrapped ''unable to update database metadata'' err)),
                                    ds, s6)
                               | (None, s6) \<Rightarrow>
                                   (case call_db_Init e cacheDir s6 of
                                      (Some err, s7) \<Rightarrow>
                                        (Returns (Some (Wrapped ''failed to open DB'' err)), ds, s7)
                                    | (None, s7) \<Rightarrow> (Returns None, ds, s7))))))))"

text \<open>
  \<open>hotUpdate\<close>: the body, then, when it returns, the deferred calls, the last one
  deferred first.
\<close>

definition hotUpdate :: "env \<Rightarrow> string \<Rightarrow> world \<Rightarrow> error option outcome \<times> world" where
  "hotUpdate e cacheDir s =
     (case hotUpdate_body e cacheDir s of
        (Blocks, ds, s') \<Rightarrow> (Blocks, s')
      | (Returns r, ds, s') \<Rightarrow> (Returns r, fold run_deferred ds s'))"

definition update :: "env \<Rightarrow> string \<Rightarrow> string \<Rightarrow> world \<Rightarrow> error option outcome \<times> world" where
  "update e appVersion cacheDir s0 =
     (case updateLastDBUpdatePrometheus (now_attempt e) True s0 of
        (Some err, s1) \<Rightarrow> (Returns (Some (Errorf_w err)), s1)
      | (None, s1) \<Rightarrow>
          (case call_NeedsUpdate e appVersion False False s1 of
             ((needsUpdate, Some err), s2) \<Rightarrow>
               (Returns (Some (New ''failed to check if db needs an update'')), s2)
           | ((needsUpdate, None), s2) \<Rightarrow>
               if \<not> needsUpdate then (Returns None, s2)
               else
                 (case hotUpdate e cacheDir s2 of
                    (Blocks, s3) \<Rightarrow> (Blocks, s3)
                  | (Returns (Some err), s3) \<Rightarrow> (Returns (Some (New ''failed DB hot update'')), s3)
                  | (Returns None, s3) \<Rightarrow>
                      (case updateLastDBUpdatePrometheus (now_success e) False s3 of
                         (Some err, s4) \<Rightarrow> (Returns (Some (Errorf_w err)), s4)
                       | (None, s4) \<Rightarrow> (Returns None, s4)))))"

section \<open>The scheduler loop of ListenAndServe\<close>

text \<open>
  The iterations of the endless \<open>for\<close> loop of the worker goroutine that the list of
  environments describes, one environment for each cycle. The result is what each cycle
  did, in order: the loop logs the error of a cycle that returns one and goes on; a cycle
  that blocks is the last one.
\<close>

fun scheduler_loop ::
  "env list \<Rightarrow> string \<Rightarrow> string \<Rightarrow> world \<Rightarrow> error option outcome list \<times> world" where
  "scheduler_loop [] appVersion cacheDir s = ([], s)"
| "scheduler_loop (e # es) appVersion cacheDir s =
     (case update e appVersion cacheDir s of
        (Blocks, s1) \<Rightarrow> ([Blocks], s1)
      | (Returns r, s1) \<Rightarrow>
          (case scheduler_loop es appVersion cacheDir s1 of
             (rs, s2) \<Rightarrow> (Returns r # rs, s2)))"

text \<open>
  The goroutine: seed the gauge from the persisted metadata; when that fails, set
  \<open>c.GaugeMetric\<close> to nil and log the error; then loop. The result is the error of the
  seeding, what the cycles did, and the state.
\<close>

definition worker_goroutine ::
  "int \<times> error option \<Rightarrow> env list \<Rightarrow> string \<Rightarrow> string \<Rightarrow> world
     \<Rightarrow> error option \<times> error option outcome list \<times> world" where
  "worker_goroutine Get es appVersion cacheDir s =
     (case initializeMetricGauge Get s of
        (Some err, s1) \<Rightarrow>
          (case scheduler_loop es appVersion cacheDir (s1\<lparr>gaugeMetric := None\<rparr>) of
             (rs, s2) \<Rightarrow> (Some err, rs, s2))
      | (None, s1) \<Rightarrow>
          (case scheduler_loop es appVersion cacheDir s1 of
             (rs, s2) \<Rightarrow> (None, rs, s2)))"

section \<open>The admission gate under interleaving\<close>

text \<open>
  The handler that \<open>withWaitGroup\<close> returns, as its atomic steps. The program counter
  names the statement that the handler executes next; at \<open>H_ServeHTTP\<close> the deferred
  \<open>requestWg.Done()\<close> is registered and \<open>base.ServeHTTP\<close> is running.
\<close>

datatype handler_pc =
    H_dbUpdateWg_Wait
  | H_requestWg_Add
  | H_ServeHTTP
  | H_requestWg_Done
  | H_returned
  | H_panicked

text \<open>How \<open>base.ServeHTTP\<close> ends for a request.\<close>

datatype served = Responds | Responds_error | Panics

text \<open>
  One step of a handler, from the two counters: the new program counter and the new
  \<open>requestWg\<close>. \<open>None\<close>: the handler is blocked in \<open>dbUpdateWg.Wait()\<close>, or has left.
  The deferred \<open>Done\<close> runs whether \<open>ServeHTTP\<close> returns or panics.
\<close>

fun handler_step :: "handler_pc \<times> served \<Rightarrow> int \<Rightarrow> int \<Rightarrow> ((handler_pc \<times> served) \<times> int) option" where
  "handler_step (H_dbUpdateWg_Wait, how) u r =
     (if u = 0 then Some ((H_requestWg_Add, how), r) else None)"
| "handler_step (H_requestWg_Add, how) u r = Some ((H_ServeHTTP, how), r + 1)"
| "handler_step (H_ServeHTTP, how) u r = Some ((H_requestWg_Done, how), r)"
| "handler_step (H_requestWg_Done, how) u r =
     Some ((if how = Panics then H_panicked else H_returned, how), r - 1)"
| "handler_step (H_returned, how) u r = None"
| "handler_step (H_panicked, how) u r = None"

text \<open>
  The part of \<open>hotUpdate\<close> after the download, as its atomic steps; the program counter
  names the call that the worker makes next, \<open>W_dbUpdateWg_Done\<close> being the deferred call.
\<close>

datatype worker_pc =
    W_dbUpdateWg_Add
  | W_requestWg_Wait
  | W_db_Close
  | W_CopyFile
  | W_UpdateMetadata
  | W_db_Init
  | W_dbUpdateWg_Done
  | W_returned

text \<open>
  Which of the calls of the swap return an error. \<open>db.Init\<close> is the last call: with or
  without an error of it, the deferred call is next.
\<close>

record swap_fails =
  close_fails :: bool
  copy_fails :: bool
  metadata_fails :: bool

text \<open>
  One step of the worker: the new program counter and the new \<open>dbUpdateWg\<close>.
  \<open>None\<close>: the worker is blocked in \<open>requestWg.Wait()\<close>, or has returned.
\<close>

fun worker_step :: "swap_fails \<Rightarrow> worker_pc \<Rightarrow> int \<Rightarrow> int \<Rightarrow> (worker_pc \<times> int) option" where
  "worker_step f W_dbUpdateWg_Add u r = Some (W_requestWg_Wait, u + 1)"
| "worker_step f W_requestWg_Wait u r = (if r = 0 then Some (W_db_Close, u) else None)"
| "worker_step f W_db_Close u r =
     Some (if close_fails f then W_dbUpdateWg_Done else W_CopyFile, u)"
| "worker_step f W_CopyFile u r =
     Some (if copy_fails f then W_dbUpdateWg_Done else W_UpdateMetadata, u)"
| "worker_step f W_UpdateMetadata u r =
     Some (if metadata_fails f then W_dbUpdateWg_Done else W_db_Init, u)"
| "worker_step f W_db_Init u r = Some (W_dbUpdateWg_Done, u)"
| "worker_step f W_dbUpdateWg_Done u r = Some (W_returned, u - 1)"
| "worker_step f W_returned u r = None"

text \<open>The two wait groups of \<open>ListenAndServe\<close>, the requests and the worker.\<close>

record gate =
  wg_dbUpdate :: int
  wg_request :: int
  handlers :: "(handler_pc \<times> served) list"
  worker :: worker_pc

datatype thread = Worker | Handler nat

fun step :: "swap_fails \<Rightarrow> thread \<Rightarrow> gate \<Rightarrow> gate option" where
  "step f Worker c =
     (case worker_step f (worker c) (wg_dbUpdate c) (wg_request c) of
        None \<Rightarrow> None
      | Some (pc, u) \<Rightarrow> Some (c\<lparr>wg_dbUpdate := u, worker := pc\<rparr>))"
| "step f (Handler i) c =
     (if length (handlers c) \<le> i then None
      else
        (case handler_step (handlers c ! i) (wg_dbUpdate c) (wg_request c) of
           None \<Rightarrow> None
         | Some (h, r) \<Rightarrow> Some (c\<lparr>wg_request := r, handlers := (handlers c)[i := h]\<rparr>)))"

text \<open>
  An interleaving is the list of the threads that move, in order. \<open>None\<close>: some thread of
  the list cannot move when its turn comes, so the list is no execution.
\<close>

fun exec :: "swap_fails \<Rightarrow> thread list \<Rightarrow> gate \<Rightarrow> gate option" where
  "exec f [] c = Some c"
| "exec f (t # ts) c = (case step f t c of None \<Rightarrow> None | Some c' \<Rightarrow> exec f ts c')"

text \<open>A request that is about to enter the wrapped handler, and one that has left it.\<close>

definition arriving :: "served \<Rightarrow> handler_pc \<times> served" where
  "arriving how = (H_dbUpdateWg_Wait, how)"

definition served_pc :: "served \<Rightarrow> handler_pc \<times> served" where
  "served_pc how = (if how = Panics then H_panicked else H_returned, how)"

text \<open>
  The start: both counters are zero, every request is about to enter the wrapped handler
  and the worker has downloaded the new database.
\<close>

definition idle :: "served list \<Rightarrow> gate" where
  "idle hows =
     \<lparr>wg_dbUpdate = 0, wg_request = 0, handlers = map arriving hows,
      worker = W_dbUpdateWg_Add\<rparr>"

text \<open>The interleaving that serves \<open>n\<close> requests one after the other, from request \<open>k\<close> on.\<close>

fun one_by_one :: "nat \<Rightarrow> nat \<Rightarrow> thread list" where
  "one_by_one k 0 = []"
| "one_by_one k (Suc n) = [Handler k, Handler k, Handler k, Handler k] @ one_by_one (Suc k) n"

definition no_failure :: swap_fails where
  "no_failure = \<lparr>close_fails = False, copy_fails = False, metadata_fails = False\<rparr>"

text \<open>A request is in flight from its \<open>requestWg.Add(1)\<close> to its \<open>requestWg.Done()\<close>.\<close>

fun in_flight :: "handler_pc \<times> served \<Rightarrow> int" where
  "in_flight (H_ServeHTTP, how) = 1"
| "in_flight (H_requestWg_Done, how) = 1"
| "in_flight (pc, how) = 0"

fun left :: "handler_pc \<times> served \<Rightarrow> bool" where
  "left (H_returned, how) = True"
| "left (H_panicked, how) = True"
| "left (pc, how) = False"

text \<open>The database handle is closed and not yet reopened.\<close>

fun swapping :: "worker_pc \<Rightarrow> bool" where
  "swapping W_CopyFile = True"
| "swapping W_UpdateMetadata = True"
| "swapping W_db_Init = True"
| "swapping pc = False"

text \<open>Some request runs its handler body while the worker replaces the file.\<close>

definition overlap :: "gate \<Rightarrow> bool" where
  "overlap c = (swapping (worker c) \<and> H_ServeHTTP \<in> fst ` set (handlers c))"

text \<open>The counter \<open>dbUpdateWg\<close> that goes with each program counter of the worker.\<close>

fun marking :: "worker_pc \<Rightarrow> int" where
  "marking W_dbUpdateWg_Add = 0"
| "marking W_returned = 0"
| "marking pc = 1"

section \<open>Fixtures\<close>

text \<open>
  The inputs of the package's test \<open>Test_dbWorker_update\<close>: application version \<open>"1"\<close>,
  a client that asks for an update and whose download writes the new database, a gauge
  without samples, and both wait groups at zero.
\<close>

definition happy_env :: env where
  "happy_env =
     \<lparr>now_attempt = 100, now_success = 105,
      NeedsUpdate = (\<lambda>appVersion light skip. (True, None)),
      TempDir = (''tmp'', None),
      Download = (\<lambda>dst quiet. None),
      Download_writes = Some ''new.db'',
      requests_drain = True,
      db_Close = None,
      CopyFile_io = None,
      failed_copy_leaves = (\<lambda>old. old),
      UpdateMetadata = (\<lambda>dir. None),
      db_Init = (\<lambda>dir. None)\<rparr>"

definition not_update_env :: env where
  "not_update_env = happy_env\<lparr>NeedsUpdate := (\<lambda>appVersion light skip. (False, None))\<rparr>"

definition needsUpdate_error_env :: env where
  "needsUpdate_error_env =
     happy_env\<lparr>NeedsUpdate := (\<lambda>appVersion light skip. (False, Some (New ''fail'')))\<rparr>"

definition download_error_env :: env where
  "download_error_env = happy_env\<lparr>Download := (\<lambda>dst quiet. Some (New ''fail''))\<rparr>"

definition close_error_env :: env where
  "close_error_env = happy_env\<lparr>db_Close := Some (New ''database not open'')\<rparr>"

definition copy_error_env :: env where
  "copy_error_env = happy_env\<lparr>CopyFile_io := Some (New ''no space left on device'')\<rparr>"

definition metadata_error_env :: env where
  "metadata_error_env = happy_env\<lparr>UpdateMetadata := (\<lambda>dir. Some (New ''read-only file system''))\<rparr>"

definition init_error_env :: env where
  "init_error_env = happy_env\<lparr>db_Init := (\<lambda>dir. Some (New ''timeout''))\<rparr>"

definition fresh_world :: world where
  "fresh_world =
     \<lparr>gaugeMetric = Some Map.empty, dbUpdateWg = 0, requestWg = 0,
      dirs = {''cache''}, dbfile = [''cache'' \<mapsto> ''old.db''], trace = []\<rparr>"

definition nil_gauge_world :: world where
  "nil_gauge_world = fresh_world\<lparr>gaugeMetric := None\<rparr>"

definition busy_world :: world where
  "busy_world = fresh_world\<lparr>requestWg := 2\<rparr>"

text \<open>
  A burst of three requests around one update: the first two enter before the worker marks
  the update, the third after the worker has cleared it.
\<close>

definition burst :: "thread list" where
  "burst =
     [Handler 0, Handler 0, Handler 1, Worker, Handler 1, Handler 0, Handler 0, Handler 1,
      Handler 1, Worker, Worker, Worker, Worker, Worker, Worker,
      Handler 2, Handler 2, Handler 2, Handler 2]"

section \<open>Facts about the worker\<close>

lemmas call_defs = call_NeedsUpdate_def ioutil_TempDir_def os_RemoveAll_def call_Download_def
  call_db_Close_def CopyFile_def call_UpdateMetadata_def call_db_Init_def
  dbUpdateWg_Add_def dbUpdateWg_Done_def requestWg_Wait_def emit_def gauge_Set_def

lemmas fixture_defs = happy_env_def not_update_env_def needsUpdate_error_env_def
  download_error_env_def close_error_env_def copy_error_env_def metadata_error_env_def
  init_error_env_def fresh_world_def nil_gauge_world_def busy_world_def

lemma hotUpdate_keeps_gauge: "gaugeMetric (snd (hotUpdate e cacheDir s)) = gaugeMetric s"
  by (auto simp: hotUpdate_def hotUpdate_body_def call_defs Let_def
      split: option.splits prod.splits outcome.splits)

lemma hotUpdate_extends_trace: "\<exists>evs. trace (snd (hotUpdate e cacheDir s)) = trace s @ evs"
  by (auto simp: hotUpdate_def hotUpdate_body_def call_defs Let_def
      split: option.splits prod.splits outcome.splits)

lemma hotUpdate_returns:
  "requestWg s = 0 \<or> requests_drain e \<Longrightarrow> \<exists>r s'. hotUpdate e cacheDir s = (Returns r, s')"
  by (auto simp: hotUpdate_def hotUpdate_body_def call_defs Let_def
      split: option.splits prod.splits outcome.splits)

lemma update_nil_gauge:
  "gaugeMetric s = None \<Longrightarrow>
   update e appVersion cacheDir s =
     (Returns (Some (Errorf_w (New ''Prometheus gauge found to be nil''))), s)"
  by (simp add: update_def updateLastDBUpdatePrometheus_def)

text \<open>With a gauge, \<open>update\<close> records the attempt, asks the client and goes on from there.\<close>

lemma update_with_gauge:
  assumes "gaugeMetric s = Some g" and "NeedsUpdate e v False False = (b, err)"
    and "s2 = s\<lparr>gaugeMetric := Some (g(''last_db_update_attempt'' \<mapsto> now_attempt e)),
                trace := trace s @ [Gauge_Set ''last_db_update_attempt'' (now_attempt e),
                                    NeedsUpdate_call v False False]\<rparr>"
  shows "update e v cacheDir s =
     (case err of
        Some x \<Rightarrow> (Returns (Some (New ''failed to check if db needs an update'')), s2)
      | None \<Rightarrow>
          if \<not> b then (Returns None, s2)
          else
            (case hotUpdate e cacheDir s2 of
               (Blocks, s3) \<Rightarrow> (Blocks, s3)
             | (Returns (Some err), s3) \<Rightarrow> (Returns (Some (New ''failed DB hot update'')), s3)
             | (Returns None, s3) \<Rightarrow>
                 (case updateLastDBUpdatePrometheus (now_success e) False s3 of
                    (Some err, s4) \<Rightarrow> (Returns (Some (Errorf_w err)), s4)
                  | (None, s4) \<Rightarrow> (Returns None, s4))))"
  using assms
  by (simp add: update_def updateLastDBUpdatePrometheus_def call_NeedsUpdate_def gauge_Set_def
      emit_def split: option.splits)

lemma scheduler_loop_nil_gauge:
  "gaugeMetric s = None \<Longrightarrow>
   scheduler_loop es v cacheDir s =
     (replicate (length es) (Returns (Some (Errorf_w (New ''Prometheus gauge found to be nil'')))), s)"
  by (induction es) (simp_all add: update_nil_gauge)

lemma initializeMetricGauge_failure_keeps_state:
  "initializeMetricGauge Get s = (Some err, s1) \<Longrightarrow> s1 = s"
  by (auto simp: initializeMetricGauge_def updateLastDBUpdatePrometheus_def gauge_Set_def emit_def
      split: prod.splits option.splits if_splits)

section \<open>Facts about the gate\<close>

lemma in_flight_update:
  "i < length hs \<Longrightarrow>
   sum_list (map in_flight (hs[i := h])) =
     sum_list (map in_flight hs) - in_flight (hs ! i) + in_flight h"
  by (induction hs arbitrary: i) (auto split: nat.splits)

lemma handler_step_in_flight:
  "handler_step h u r = Some (h', r') \<Longrightarrow> r' - in_flight h' = r - in_flight h"
  by (cases "(h, u, r)" rule: handler_step.cases) (auto split: if_splits)

lemma step_keeps_count:
  assumes "step f t c = Some c'" and "wg_request c = sum_list (map in_flight (handlers c))"
  shows "wg_request c' = sum_list (map in_flight (handlers c'))"
proof (cases t)
  case Worker
  with assms show ?thesis by (auto split: option.splits)
next
  case (Handler i)
  with assms show ?thesis
    by (auto simp: in_flight_update split: option.splits if_splits dest!: handler_step_in_flight)
qed

lemma exec_keeps_count:
  "exec f sched c = Some c' \<Longrightarrow> wg_request c = sum_list (map in_flight (handlers c))
   \<Longrightarrow> wg_request c' = sum_list (map in_flight (handlers c'))"
proof (induction sched arbitrary: c)
  case Nil
  then show ?case by simp
next
  case (Cons t ts)
  then show ?case by (auto split: option.splits dest: step_keeps_count)
qed

lemma left_not_in_flight: "left h \<Longrightarrow> in_flight h = 0"
  by (cases h rule: left.cases) auto

lemma all_left_none_in_flight: "\<forall>h\<in>set hs. left h \<Longrightarrow> sum_list (map in_flight hs) = 0"
  by (induction hs) (auto simp: left_not_in_flight)

lemma in_flight_can_move:
  "i < length (handlers c) \<Longrightarrow> in_flight (handlers c ! i) = 1 \<Longrightarrow> step f (Handler i) c \<noteq> None"
  by (cases "handlers c ! i" rule: in_flight.cases) auto

lemma exec_append:
  "exec f (xs @ ys) c = (case exec f xs c of None \<Rightarrow> None | Some c' \<Rightarrow> exec f ys c')"
  by (induction xs arbitrary: c) (auto split: option.splits)

lemma idle_count: "wg_request (idle hows) = sum_list (map in_flight (handlers (idle hows)))"
  by (induction hows) (simp_all add: idle_def arriving_def)

text \<open>While no update is marked, a request runs through the wrapped handler in four steps.\<close>

lemma serve_one:
  assumes "wg_dbUpdate c = 0" and "k < length (handlers c)" and "handlers c ! k = arriving how"
  shows "exec f [Handler k, Handler k, Handler k, Handler k] c
           = Some (c\<lparr>handlers := (handlers c)[k := served_pc how]\<rparr>)"
  using assms by (simp add: arriving_def served_pc_def)

lemma one_by_one_completes:
  assumes "wg_dbUpdate c = 0"
    and "handlers c = map served_pc (take k hows) @ map arriving (drop k hows)"
    and "k + n = length hows"
  shows "exec f (one_by_one k n) c = Some (c\<lparr>handlers := map served_pc hows\<rparr>)"
  using assms
proof (induction n arbitrary: k c)
  case 0
  then show ?case by simp
next
  case (Suc n)
  from Suc.prems have k: "k < length hows" by simp
  let ?c1 = "c\<lparr>handlers := (handlers c)[k := served_pc (hows ! k)]\<rparr>"
  have len: "k < length (handlers c)" using Suc.prems k by simp
  have at: "handlers c ! k = arriving (hows ! k)"
    using Suc.prems k by (simp add: nth_append)
  have one: "exec f [Handler k, Handler k, Handler k, Handler k] c = Some ?c1"
    using Suc.prems(1) len at by (rule serve_one)
  have h1: "handlers ?c1 = map served_pc (take (Suc k) hows) @ map arriving (drop (Suc k) hows)"
    using Suc.prems k
    by (simp add: take_Suc_conv_app_nth list_update_append Cons_nth_drop_Suc [symmetric])
  have "exec f (one_by_one (Suc k) n) ?c1 = Some (?c1\<lparr>handlers := map served_pc hows\<rparr>)"
    using Suc.prems h1 by (intro Suc.IH) simp_all
  with one show ?case
    by (simp only: one_by_one.simps exec_append) simp
qed

lemma served_pc_left: "left (served_pc how)"
  by (simp add: served_pc_def)

text \<open>
  What the gate does get right: a request that calls \<open>dbUpdateWg.Wait()\<close> while the
  update is marked is parked, and when \<open>requestWg.Wait()\<close> returns no request is between
  its \<open>Add\<close> and its \<open>Done\<close>.
\<close>

lemma parked_while_marked:
  "wg_dbUpdate c \<noteq> 0 \<Longrightarrow> i < length (handlers c) \<Longrightarrow> fst (handlers c ! i) = H_dbUpdateWg_Wait
   \<Longrightarrow> step f (Handler i) c = None"
  by (cases "handlers c ! i") simp

lemma drained_when_wait_returns:
  assumes "exec f sched (idle hows) = Some c" and "worker c = W_requestWg_Wait"
    and "step f Worker c = Some c'"
  shows "\<forall>h\<in>set (handlers c'). in_flight h = 0"
proof -
  from assms(1) idle_count have count: "wg_request c = sum_list (map in_flight (handlers c))"
    by (rule exec_keeps_count)
  from assms(2,3) have zero: "wg_request c = 0" and same: "handlers c' = handlers c"
    by (auto split: if_splits)
  have nonneg: "\<And>h. 0 \<le> in_flight h"
    by (rule in_flight.cases) auto
  have "sum_list (map in_flight hs) = 0 \<Longrightarrow> \<forall>h\<in>set hs. in_flight h = 0" for hs
  proof (induction hs)
    case Nil
    then show ?case by simp
  next
    case (Cons h hs)
    have "0 \<le> sum_list (map in_flight hs)"
      by (rule sum_list_nonneg) (auto simp: nonneg)
    with Cons nonneg [of h] show ?case
      by (auto simp: add_nonneg_eq_0_iff)
  qed
  with count zero same show ?thesis by simp
qed

text \<open>The update is marked exactly while the worker is between its \<open>Add\<close> and its \<open>Done\<close>.\<close>

lemma exec_keeps_marking:
  "exec f sched c = Some c' \<Longrightarrow> wg_dbUpdate c = marking (worker c)
   \<Longrightarrow> wg_dbUpdate c' = marking (worker c')"
proof (induction sched arbitrary: c)
  case Nil
  then show ?case by simp
next
  case (Cons t ts)
  from Cons.prems obtain c1 where c1: "step f t c = Some c1" and rest: "exec f ts c1 = Some c'"
    by (auto split: option.splits)
  have "wg_dbUpdate c1 = marking (worker c1)"
  proof (cases t)
    case Worker
    with c1 Cons.prems(2) show ?thesis
      by (cases "worker c") (auto split: if_splits)
  next
    case (Handler i)
    with c1 Cons.prems(2) show ?thesis
      by (auto split: if_splits option.splits)
  qed
  with rest show ?case by (rule Cons.IH)
qed

section \<open>The claims\<close>

subsection \<open>C1: the admission gate\<close>

text \<open>
  C1 says that no request handler runs concurrently with the close, copy and reopen steps
  of an update. The handler checks \<open>dbUpdateWg\<close> and increments \<open>requestWg\<close> in two
  steps, and the worker can mark the update, find \<open>requestWg\<close> at zero and close the
  database between the two: in the interleaving below a request passes
  \<open>dbUpdateWg.Wait()\<close>, the worker runs \<open>dbUpdateWg.Add(1)\<close>, \<open>requestWg.Wait()\<close> and
  \<open>db.Close()\<close>, and the request then runs \<open>requestWg.Add(1)\<close> and is inside
  \<open>base.ServeHTTP\<close> while the worker is about to copy the file over the closed database.
\<close>

theorem gate_race_request_during_swap:
  "exec no_failure [Handler 0, Worker, Worker, Worker, Handler 0] (idle [Responds])
     = Some \<lparr>wg_dbUpdate = 1, wg_request = 1, handlers = [(H_ServeHTTP, Responds)],
             worker = W_CopyFile\<rparr>
   \<and> overlap \<lparr>wg_dbUpdate = 1, wg_request = 1, handlers = [(H_ServeHTTP, Responds)],
               worker = W_CopyFile\<rparr>"
  by (simp add: idle_def arriving_def no_failure_def overlap_def)

subsection \<open>C2: the gate is released on every exit path\<close>

lemma hotUpdate_marks:
  assumes "TempDir e = (tmpDir, None)" and "Download e tmpDir False = None"
  shows "DbUpdateWg_Add \<in> set (drop (length (trace s)) (trace (snd (hotUpdate e cacheDir s))))"
  using assms
  by (auto simp: hotUpdate_def hotUpdate_body_def call_defs Let_def
      split: option.splits prod.splits outcome.splits)

lemma hotUpdate_release:
  assumes "hotUpdate e cacheDir s = (Returns r, s')"
  shows "dbUpdateWg s' = dbUpdateWg s
     \<and> count_list (drop (length (trace s)) (trace s')) DbUpdateWg_Done
         = count_list (drop (length (trace s)) (trace s')) DbUpdateWg_Add
     \<and> (DbUpdateWg_Add \<in> set (drop (length (trace s)) (trace s')) \<longrightarrow>
          DbUpdateWg_Done \<in> set (dropWhile (\<lambda>ev. ev \<noteq> DbUpdateWg_Add)
                                    (drop (length (trace s)) (trace s'))))"
  using assms
  by (auto simp: hotUpdate_def hotUpdate_body_def call_defs Let_def
      split: option.splits prod.splits if_splits outcome.splits)

text \<open>
  C2: when the requests in flight drain, \<open>hotUpdate\<close> returns, whatever the close, the
  copy, the metadata update and the reopen answer, and at its return \<open>dbUpdateWg\<close> is
  back at the value it had at the call, \<open>dbUpdateWg.Done()\<close> has run as often as
  \<open>dbUpdateWg.Add(1)\<close>, and a \<open>Done\<close> follows the \<open>Add\<close>; the update is marked whenever
  the download has succeeded. The same holds at every return of \<open>hotUpdate\<close>, drain or
  not. The events are those that the call added to the trace.
\<close>

theorem hotUpdate_releases_gate:
  "(requestWg s = 0 \<or> requests_drain e \<longrightarrow>
      (\<exists>r s'. hotUpdate e cacheDir s = (Returns r, s')
         \<and> dbUpdateWg s' = dbUpdateWg s
         \<and> count_list (drop (length (trace s)) (trace s')) DbUpdateWg_Done
             = count_list (drop (length (trace s)) (trace s')) DbUpdateWg_Add
         \<and> (DbUpdateWg_Add \<in> set (drop (length (trace s)) (trace s')) \<longrightarrow>
              DbUpdateWg_Done \<in> set (dropWhile (\<lambda>ev. ev \<noteq> DbUpdateWg_Add)
                                        (drop (length (trace s)) (trace s'))))
         \<and> (\<forall>tmpDir. TempDir e = (tmpDir, None) \<longrightarrow> Download e tmpDir False = None \<longrightarrow>
               DbUpdateWg_Add \<in> set (drop (length (trace s)) (trace s')))))
   \<and> (\<forall>r s'. hotUpdate e cacheDir s = (Returns r, s') \<longrightarrow>
         dbUpdateWg s' = dbUpdateWg s
         \<and> count_list (drop (length (trace s)) (trace s')) DbUpdateWg_Done
             = count_list (drop (length (trace s)) (trace s')) DbUpdateWg_Add
         \<and> (DbUpdateWg_Add \<in> set (drop (length (trace s)) (trace s')) \<longrightarrow>
              DbUpdateWg_Done \<in> set (dropWhile (\<lambda>ev. ev \<noteq> DbUpdateWg_Add)
                                        (drop (length (trace s)) (trace s')))))"
proof -
  have every_return: "\<forall>r s'. hotUpdate e cacheDir s = (Returns r, s') \<longrightarrow>
         dbUpdateWg s' = dbUpdateWg s
         \<and> count_list (drop (length (trace s)) (trace s')) DbUpdateWg_Done
             = count_list (drop (length (trace s)) (trace s')) DbUpdateWg_Add
         \<and> (DbUpdateWg_Add \<in> set (drop (length (trace s)) (trace s')) \<longrightarrow>
              DbUpdateWg_Done \<in> set (dropWhile (\<lambda>ev. ev \<noteq> DbUpdateWg_Add)
                                        (drop (length (trace s)) (trace s'))))"
    by (intro allI impI) (rule hotUpdate_release)
  have returns: "requestWg s = 0 \<or> requests_drain e \<longrightarrow>
      (\<exists>r s'. hotUpdate e cacheDir s = (Returns r, s')
         \<and> dbUpdateWg s' = dbUpdateWg s
         \<and> count_list (drop (length (trace s)) (trace s')) DbUpdateWg_Done
             = count_list (drop (length (trace s)) (trace s')) DbUpdateWg_Add
         \<and> (DbUpdateWg_Add \<in> set (drop (length (trace s)) (trace s')) \<longrightarrow>
              DbUpdateWg_Done \<in> set (dropWhile (\<lambda>ev. ev \<noteq> DbUpdateWg_Add)
                                        (drop (length (trace s)) (trace s'))))
         \<and> (\<forall>tmpDir. TempDir e = (tmpDir, None) \<longrightarrow> Download e tmpDir False = None \<longrightarrow>
               DbUpdateWg_Add \<in> set (drop (length (trace s)) (trace s'))))"
  proof
    assume "requestWg s = 0 \<or> requests_drain e"
    then obtain r s' where h: "hotUpdate e cacheDir s = (Returns r, s')"
      using hotUpdate_returns by blast
    have m: "\<forall>tmpDir. TempDir e = (tmpDir, None) \<longrightarrow> Download e tmpDir False = None \<longrightarrow>
        DbUpdateWg_Add \<in> set (drop (length (trace s)) (trace s'))"
      using hotUpdate_marks [where e=e and cacheDir=cacheDir and s=s] h by simp
    from h hotUpdate_release [OF h] m
    show "\<exists>r s'. hotUpdate e cacheDir s = (Returns r, s')
         \<and> dbUpdateWg s' = dbUpdateWg s
         \<and> count_list (drop (length (trace s)) (trace s')) DbUpdateWg_Done
             = count_list (drop (length (trace s)) (trace s')) DbUpdateWg_Add
         \<and> (DbUpdateWg_Add \<in> set (drop (length (trace s)) (trace s')) \<longrightarrow>
              DbUpdateWg_Done \<in> set (dropWhile (\<lambda>ev. ev \<noteq> DbUpdateWg_Add)
                                        (drop (length (trace s)) (trace s'))))
         \<and> (\<forall>tmpDir. TempDir e = (tmpDir, None) \<longrightarrow> Download e tmpDir False = None \<longrightarrow>
               DbUpdateWg_Add \<in> set (drop (length (trace s)) (trace s')))"
      by (intro exI [of _ r] exI [of _ s']) (intro conjI, simp_all)
  qed
  from returns every_return show ?thesis
    by (rule conjI)
qed

text \<open>
  With two requests in flight that drain, the close, the copy, the metadata update or the
  reopen fails: each time \<open>hotUpdate\<close> returns the error of that stage, the update was
  marked and the counter is back at zero.
\<close>

theorem hotUpdate_releases_gate_witness:
  "requests_drain close_error_env
   \<and> fst (hotUpdate close_error_env ''cache'' busy_world)
       = Returns (Some (Wrapped ''failed to close DB'' (New ''database not open'')))
   \<and> DbUpdateWg_Add \<in> set (trace (snd (hotUpdate close_error_env ''cache'' busy_world)))
   \<and> dbUpdateWg (snd (hotUpdate close_error_env ''cache'' busy_world)) = 0
   \<and> requests_drain copy_error_env
   \<and> fst (hotUpdate copy_error_env ''cache'' busy_world)
       = Returns (Some (Wrapped ''failed to copy the database file''
                          (New ''no space left on device'')))
   \<and> DbUpdateWg_Add \<in> set (trace (snd (hotUpdate copy_error_env ''cache'' busy_world)))
   \<and> dbUpdateWg (snd (hotUpdate copy_error_env ''cache'' busy_world)) = 0
   \<and> requests_drain metadata_error_env
   \<and> fst (hotUpdate metadata_error_env ''cache'' busy_world)
       = Returns (Some (Wrapped ''unable to update database metadata''
                          (New ''read-only file system'')))
   \<and> DbUpdateWg_Add \<in> set (trace (snd (hotUpdate metadata_error_env ''cache'' busy_world)))
   \<and> dbUpdateWg (snd (hotUpdate metadata_error_env ''cache'' busy_world)) = 0
   \<and> requests_drain init_error_env
   \<and> fst (hotUpdate init_error_env ''cache'' busy_world)
       = Returns (Some (Wrapped ''failed to open DB'' (New ''timeout'')))
   \<and> DbUpdateWg_Add \<in> set (trace (snd (hotUpdate init_error_env ''cache'' busy_world)))
   \<and> dbUpdateWg (snd (hotUpdate init_error_env ''cache'' busy_world)) = 0"
proof -
  note defs = hotUpdate_def hotUpdate_body_def call_defs Let_def fixture_defs
  have d: "requests_drain close_error_env" "requests_drain copy_error_env"
    "requests_drain metadata_error_env" "requests_drain init_error_env"
    by (simp_all add: fixture_defs)
  have z: "dbUpdateWg busy_world = 0" "trace busy_world = []"
    by (simp_all add: fixture_defs)
  have r: "fst (hotUpdate close_error_env ''cache'' busy_world)
       = Returns (Some (Wrapped ''failed to close DB'' (New ''database not open'')))"
    "fst (hotUpdate copy_error_env ''cache'' busy_world)
       = Returns (Some (Wrapped ''failed to copy the database file''
                          (New ''no space left on device'')))"
    "fst (hotUpdate metadata_error_env ''cache'' busy_world)
       = Returns (Some (Wrapped ''unable to update database metadata''
                          (New ''read-only file system'')))"
    "fst (hotUpdate init_error_env ''cache'' busy_world)
       = Returns (Some (Wrapped ''failed to open DB'' (New ''timeout'')))"
    by (simp_all add: defs)
  have t: "TempDir close_error_env = (''tmp'', None)" "Download close_error_env ''tmp'' False = None"
    "TempDir copy_error_env = (''tmp'', None)" "Download copy_error_env ''tmp'' False = None"
    "TempDir metadata_error_env = (''tmp'', None)" "Download metadata_error_env ''tmp'' False = None"
    "TempDir init_error_env = (''tmp'', None)" "Download init_error_env ''tmp'' False = None"
    by (simp_all add: fixture_defs)
  have "DbUpdateWg_Add \<in> set (trace (snd (hotUpdate e ''cache'' busy_world)))
      \<and> dbUpdateWg (snd (hotUpdate e ''cache'' busy_world)) = 0"
    if "requests_drain e" "TempDir e = (''tmp'', None)" "Download e ''tmp'' False = None" for e
    using hotUpdate_releases_gate [of busy_world e "''cache''"] that z by auto
  with d r t show ?thesis by blast
qed

subsection \<open>C3: the order of the hot swap\<close>



subsection \<open>C4: a failed download\<close>

text \<open>
  C4: in a cycle whose \<open>NeedsUpdate\<close> call answers true and whose \<open>Download\<close> call
  returns an error, \<open>update\<close> returns the error \<open>failed DB hot update\<close>; the calls of
  the cycle are the attempt sample, \<open>NeedsUpdate\<close>, \<open>TempDir\<close>, \<open>Download\<close> and the
  removal of the staging directory, so the update is never marked; both wait groups and
  the live database file are as before, the staging directory is gone, and the attempt
  sample is the time of the cycle. The staging directory is a new one, hence not the cache
  directory.
\<close>

theorem download_failure_aborts:
  assumes "gaugeMetric s = Some g" and "NeedsUpdate e v False False = (True, None)"
    and "TempDir e = (tmpDir, None)" and "Download e tmpDir False = Some err"
    and "tmpDir \<noteq> cacheDir"
  shows "\<exists>s'. update e v cacheDir s = (Returns (Some (New ''failed DB hot update'')), s')
     \<and> Error (New ''failed DB hot update'') = ''failed DB hot update''
     \<and> trace s' = trace s @ [Gauge_Set ''last_db_update_attempt'' (now_attempt e),
          NeedsUpdate_call v False False, TempDir_call, Download_call tmpDir False,
          RemoveAll_call tmpDir]
     \<and> dbUpdateWg s' = dbUpdateWg s \<and> requestWg s' = requestWg s
     \<and> dbfile s' cacheDir = dbfile s cacheDir
     \<and> tmpDir \<notin> dirs s' \<and> dbfile s' tmpDir = None
     \<and> gaugeMetric s' = Some (g(''last_db_update_attempt'' \<mapsto> now_attempt e))"
  using assms
  by (simp add: update_def updateLastDBUpdatePrometheus_def hotUpdate_def hotUpdate_body_def
      call_defs)

theorem download_failure_aborts_witness:
  "gaugeMetric fresh_world = Some Map.empty
   \<and> NeedsUpdate download_error_env ''1'' False False = (True, None)
   \<and> TempDir download_error_env = (''tmp'', None)
   \<and> Download download_error_env ''tmp'' False = Some (New ''fail'')
   \<and> ''tmp'' \<noteq> ''cache''
   \<and> (\<exists>s'. update download_error_env ''1'' ''cache'' fresh_world
              = (Returns (Some (New ''failed DB hot update'')), s')
        \<and> dbUpdateWg s' = 0 \<and> dbfile s' ''cache'' = Some ''old.db'' \<and> ''tmp'' \<notin> dirs s'
        \<and> gaugeMetric s' = Some [''last_db_update_attempt'' \<mapsto> now_attempt download_error_env])"
proof -
  have h1: "gaugeMetric fresh_world = Some Map.empty" by (simp add: fresh_world_def)
  have h2: "NeedsUpdate download_error_env ''1'' False False = (True, None)"
    by (simp add: download_error_env_def happy_env_def)
  have h3: "TempDir download_error_env = (''tmp'', None)"
    by (simp add: download_error_env_def happy_env_def)
  have h4: "Download download_error_env ''tmp'' False = Some (New ''fail'')"
    by (simp add: download_error_env_def happy_env_def)
  have h5: "''tmp'' \<noteq> ''cache''" by simp
  have w: "dbUpdateWg fresh_world = 0" "dbfile fresh_world ''cache'' = Some ''old.db''"
    by (simp_all add: fresh_world_def)
  from download_failure_aborts [OF h1 h2 h3 h4 h5] h1 h2 h3 h4 h5 w show ?thesis
    by auto
qed

subsection \<open>C5: the attempt sample\<close>

text \<open>
  C5 says that every invocation of \<open>update\<close> records the attempt sample. With a nil
  gauge it does not: \<open>updateLastDBUpdatePrometheus\<close> checks the gauge first, and \<open>update\<close>
  returns its error with no sample set and no call made.
\<close>

theorem attempt_metric_nil_gauge_counterexample:
  "update happy_env ''1'' ''cache'' nil_gauge_world
     = (Returns (Some (Errorf_w (New ''Prometheus gauge found to be nil''))), nil_gauge_world)
   \<and> gaugeMetric nil_gauge_world = None \<and> trace nil_gauge_world = []"
  by (simp add: update_def updateLastDBUpdatePrometheus_def nil_gauge_world_def fresh_world_def)

text \<open>
  C5, amended: every invocation of \<open>update\<close> with a gauge that is not nil sets the sample
  \<open>last_db_update_attempt\<close> to the time of the cycle as its first call, before the
  \<open>NeedsUpdate\<close> call, whatever the answer of \<open>NeedsUpdate\<close> and whatever happens
  afterwards (the cycle returns with or without an error, or blocks in the drain); the
  sample still has that value at the end of the cycle.
\<close>

theorem attempt_metric_recorded_first:
  assumes "gaugeMetric s = Some g"
  shows "\<exists>out s' evs g'. update e v cacheDir s = (out, s')
     \<and> trace s' = trace s @ Gauge_Set ''last_db_update_attempt'' (now_attempt e)
          # NeedsUpdate_call v False False # evs
     \<and> gaugeMetric s' = Some g' \<and> g' ''last_db_update_attempt'' = Some (now_attempt e)"
proof -
  let ?a = "Gauge_Set ''last_db_update_attempt'' (now_attempt e)"
  let ?n = "NeedsUpdate_call v False False"
  let ?g = "g(''last_db_update_attempt'' \<mapsto> now_attempt e)"
  define s2 where "s2 = s\<lparr>gaugeMetric := Some ?g, trace := trace s @ [?a, ?n]\<rparr>"
  obtain evs where evs: "trace (snd (hotUpdate e cacheDir s2)) = trace s2 @ evs"
    using hotUpdate_extends_trace by blast
  have g: "gaugeMetric (snd (hotUpdate e cacheDir s2)) = Some ?g"
    by (simp add: hotUpdate_keeps_gauge s2_def)
  obtain out s3 where h: "hotUpdate e cacheDir s2 = (out, s3)"
    by (cases "hotUpdate e cacheDir s2")
  from evs g h have s3: "trace s3 = trace s @ ?a # ?n # evs" "gaugeMetric s3 = Some ?g"
    by (simp_all add: s2_def)
  obtain b err where n: "NeedsUpdate e v False False = (b, err)"
    by (cases "NeedsUpdate e v False False")
  show ?thesis
    unfolding update_with_gauge [OF assms n s2_def]
    using s3 h
    by (auto simp: s2_def updateLastDBUpdatePrometheus_def gauge_Set_def emit_def
        split: option.splits outcome.splits)
qed

text \<open>The download fails after the attempt was recorded.\<close>

theorem attempt_metric_recorded_first_witness:
  "gaugeMetric fresh_world = Some Map.empty
   \<and> (\<exists>out s' evs g'. update download_error_env ''1'' ''cache'' fresh_world = (out, s')
        \<and> trace s' = trace fresh_world
             @ Gauge_Set ''last_db_update_attempt'' (now_attempt download_error_env)
             # NeedsUpdate_call ''1'' False False # evs
        \<and> gaugeMetric s' = Some g'
        \<and> g' ''last_db_update_attempt'' = Some (now_attempt download_error_env))"
proof -
  have h: "gaugeMetric fresh_world = Some Map.empty" by (simp add: fresh_world_def)
  from attempt_metric_recorded_first [OF h] h show ?thesis by blast
qed

subsection \<open>C6: a nil gauge\<close>

text \<open>
  C6: with a nil gauge, recording a sample returns the error
  \<open>Prometheus gauge found to be nil\<close> and changes nothing, for either sample; and the
  callers return that error, wrapped, without going on: \<open>update\<close> returns it with the
  state as it was (so no call was made), and so does \<open>initializeMetricGauge\<close> once the
  metadata was read.
\<close>

theorem nil_gauge_fails_loudly:
  assumes "gaugeMetric s = None"
  shows "updateLastDBUpdatePrometheus t onlyDBAttempt s
           = (Some (New ''Prometheus gauge found to be nil''), s)
     \<and> update e appVersion cacheDir s
           = (Returns (Some (Errorf_w (New ''Prometheus gauge found to be nil''))), s)
     \<and> initializeMetricGauge (t, None) s
           = (Some (Errorf_w (New ''Prometheus gauge found to be nil'')), s)
     \<and> Error (Errorf_w (New ''Prometheus gauge found to be nil''))
           = ''Prometheus gauge found to be nil: Prometheus gauge found to be nil''"
  using assms
  by (simp add: update_def updateLastDBUpdatePrometheus_def initializeMetricGauge_def
      Errorf_w_def)

theorem nil_gauge_fails_loudly_witness:
  "gaugeMetric nil_gauge_world = None
   \<and> updateLastDBUpdatePrometheus 100 True nil_gauge_world
        = (Some (New ''Prometheus gauge found to be nil''), nil_gauge_world)
   \<and> update happy_env ''1'' ''cache'' nil_gauge_world
        = (Returns (Some (Errorf_w (New ''Prometheus gauge found to be nil''))), nil_gauge_world)"
proof -
  have h: "gaugeMetric nil_gauge_world = None"
    by (simp add: nil_gauge_world_def)
  from nil_gauge_fails_loudly [OF h, of 100 True happy_env "''1''" "''cache''"] h
  show ?thesis by blast
qed

subsection \<open>C7: the samples of a cycle\<close>

text \<open>
  C7: a cycle in which an update was needed and that returns no error leaves both samples
  set, the attempt sample to the time of the attempt and \<open>last_db_update\<close> to the time of
  the success. A cycle in which \<open>NeedsUpdate\<close> answers false returns no error, and all it
  does is to set the attempt sample and to call \<open>NeedsUpdate\<close>: no download, the wait
  groups untouched, the sample \<open>last_db_update\<close> as it was.
\<close>

theorem metric_outcomes:
  "(fst (NeedsUpdate e v False False) \<longrightarrow> update e v cacheDir s = (Returns None, s') \<longrightarrow>
      (\<exists>g'. gaugeMetric s' = Some g'
         \<and> g' ''last_db_update_attempt'' = Some (now_attempt e)
         \<and> g' ''last_db_update'' = Some (now_success e)))
   \<and> (gaugeMetric t = Some g \<longrightarrow> NeedsUpdate e2 v2 False False = (False, None) \<longrightarrow>
        update e2 v2 cacheDir2 t =
          (Returns None,
           t\<lparr>gaugeMetric := Some (g(''last_db_update_attempt'' \<mapsto> now_attempt e2)),
             trace := trace t @ [Gauge_Set ''last_db_update_attempt'' (now_attempt e2),
                                 NeedsUpdate_call v2 False False]\<rparr>))"
proof (intro conjI impI)
  assume n: "fst (NeedsUpdate e v False False)"
    and u: "update e v cacheDir s = (Returns None, s')"
  let ?g = "\<lambda>g. g(''last_db_update_attempt'' \<mapsto> now_attempt e)"
  from u obtain g0 where g0: "gaugeMetric s = Some g0"
    by (cases "gaugeMetric s") (simp_all add: update_nil_gauge)
  obtain err where ne: "NeedsUpdate e v False False = (True, err)"
    using n by (cases "NeedsUpdate e v False False") simp
  define s2 where "s2 = s\<lparr>gaugeMetric := Some (?g g0),
      trace := trace s @ [Gauge_Set ''last_db_update_attempt'' (now_attempt e),
                          NeedsUpdate_call v False False]\<rparr>"
  obtain out s3 where h: "hotUpdate e cacheDir s2 = (out, s3)"
    by (cases "hotUpdate e cacheDir s2")
  have g3: "gaugeMetric s3 = Some (?g g0)"
    using hotUpdate_keeps_gauge [of e cacheDir s2] h by (simp add: s2_def)
  from u have "s' = gauge_Set ''last_db_update'' (now_success e) (?g g0) s3"
    unfolding update_with_gauge [OF g0 ne s2_def]
    using h g3
    by (simp add: updateLastDBUpdatePrometheus_def split: option.splits outcome.splits)
  then show "\<exists>g'. gaugeMetric s' = Some g'
         \<and> g' ''last_db_update_attempt'' = Some (now_attempt e)
         \<and> g' ''last_db_update'' = Some (now_success e)"
    by (simp add: gauge_Set_def emit_def)
next
  assume a: "gaugeMetric t = Some g" and b: "NeedsUpdate e2 v2 False False = (False, None)"
  show "update e2 v2 cacheDir2 t =
          (Returns None,
           t\<lparr>gaugeMetric := Some (g(''last_db_update_attempt'' \<mapsto> now_attempt e2)),
             trace := trace t @ [Gauge_Set ''last_db_update_attempt'' (now_attempt e2),
                                 NeedsUpdate_call v2 False False]\<rparr>)"
    by (simp add: update_with_gauge [OF a b refl])
qed

theorem metric_outcomes_witness:
  "fst (NeedsUpdate happy_env ''1'' False False)
   \<and> fst (update happy_env ''1'' ''cache'' fresh_world) = Returns None
   \<and> (\<exists>g'. gaugeMetric (snd (update happy_env ''1'' ''cache'' fresh_world)) = Some g'
         \<and> g' ''last_db_update_attempt'' = Some 100 \<and> g' ''last_db_update'' = Some 105)
   \<and> gaugeMetric fresh_world = Some Map.empty
   \<and> NeedsUpdate not_update_env ''1'' False False = (False, None)
   \<and> update not_update_env ''1'' ''cache'' fresh_world =
       (Returns None,
        fresh_world\<lparr>gaugeMetric := Some [''last_db_update_attempt'' \<mapsto> 100],
          trace := [Gauge_Set ''last_db_update_attempt'' 100, NeedsUpdate_call ''1'' False False]\<rparr>)"
proof -
  have h1: "fst (NeedsUpdate happy_env ''1'' False False)"
    by (simp add: happy_env_def)
  have h2: "fst (update happy_env ''1'' ''cache'' fresh_world) = Returns None"
    by (simp add: update_def updateLastDBUpdatePrometheus_def hotUpdate_def hotUpdate_body_def
        call_defs Let_def happy_env_def fresh_world_def)
  then have h2': "update happy_env ''1'' ''cache'' fresh_world
      = (Returns None, snd (update happy_env ''1'' ''cache'' fresh_world))"
    by (simp add: prod_eq_iff)
  have h3: "gaugeMetric fresh_world = Some Map.empty"
    by (simp add: fresh_world_def)
  have h4: "NeedsUpdate not_update_env ''1'' False False = (False, None)"
    by (simp add: not_update_env_def happy_env_def)
  have t: "now_attempt happy_env = 100" "now_success happy_env = 105"
    "now_attempt not_update_env = 100" "trace fresh_world = []"
    by (simp_all add: not_update_env_def happy_env_def fresh_world_def)
  from metric_outcomes [of happy_env "''1''" "''cache''" fresh_world
      "snd (update happy_env ''1'' ''cache'' fresh_world)" fresh_world Map.empty
      not_update_env "''1''" "''cache''"] h1 h2 h2' h3 h4 t
  show ?thesis by simp
qed

subsection \<open>C8: the count of requests in flight\<close>

text \<open>
  C8: in every interleaving of any number of requests with the update, \<open>requestWg\<close> is
  the number of requests that have run \<open>requestWg.Add(1)\<close> and not yet the deferred
  \<open>requestWg.Done()\<close>. So the counter is zero once every request of the burst has left its
  handler, whether \<open>base.ServeHTTP\<close> answered, answered with an error or panicked; and a
  request in flight can always take its next step, nothing blocks its \<open>Done\<close>. Every
  burst can run to that end: served one after the other, all its requests leave.
\<close>

theorem request_accounting_balanced:
  assumes "exec f sched (idle hows) = Some c"
  shows "wg_request c = sum_list (map in_flight (handlers c))
     \<and> ((\<forall>h\<in>set (handlers c). left h) \<longrightarrow> wg_request c = 0)
     \<and> (\<forall>i<length (handlers c). in_flight (handlers c ! i) = 1 \<longrightarrow> step f (Handler i) c \<noteq> None)
     \<and> (\<exists>c'. exec f (one_by_one 0 (length hows)) (idle hows) = Some c'
           \<and> (\<forall>h\<in>set (handlers c'). left h) \<and> wg_request c' = 0)"
proof -
  from assms idle_count have "wg_request c = sum_list (map in_flight (handlers c))"
    by (rule exec_keeps_count)
  moreover have "\<forall>i<length (handlers c). in_flight (handlers c ! i) = 1
      \<longrightarrow> step f (Handler i) c \<noteq> None"
    using in_flight_can_move by blast
  moreover have "exec f (one_by_one 0 (length hows)) (idle hows)
      = Some ((idle hows)\<lparr>handlers := map served_pc hows\<rparr>)"
    by (rule one_by_one_completes) (simp_all add: idle_def)
  then have "\<exists>c'. exec f (one_by_one 0 (length hows)) (idle hows) = Some c'
           \<and> (\<forall>h\<in>set (handlers c'). left h) \<and> wg_request c' = 0"
    by (simp add: served_pc_left idle_def)
  ultimately show ?thesis
    using all_left_none_in_flight [of "handlers c"] by (simp del: step.simps)
qed

text \<open>Three requests, one of each kind, around an update: all have left, the counter is zero.\<close>

theorem request_accounting_balanced_witness:
  "exec no_failure burst (idle [Responds, Responds_error, Panics])
     = Some \<lparr>wg_dbUpdate = 0, wg_request = 0,
             handlers = [(H_returned, Responds), (H_returned, Responds_error), (H_panicked, Panics)],
             worker = W_returned\<rparr>
   \<and> left (H_returned, Responds) \<and> left (H_returned, Responds_error) \<and> left (H_panicked, Panics)
   \<and> wg_request \<lparr>wg_dbUpdate = 0, wg_request = 0,
             handlers = [(H_returned, Responds), (H_returned, Responds_error), (H_panicked, Panics)],
             worker = W_returned\<rparr> = 0"
proof -
  have e: "exec no_failure burst (idle [Responds, Responds_error, Panics])
     = Some \<lparr>wg_dbUpdate = 0, wg_request = 0,
             handlers = [(H_returned, Responds), (H_returned, Responds_error), (H_panicked, Panics)],
             worker = W_returned\<rparr>"
    by (simp add: burst_def idle_def arriving_def no_failure_def)
  have l: "left (H_returned, Responds) \<and> left (H_returned, Responds_error) \<and> left (H_panicked, Panics)"
    by simp
  from request_accounting_balanced [OF e] e l show ?thesis
    by simp
qed

subsection \<open>C9: a failed decision\<close>

text \<open>
  C9 says that \<open>update\<close> returns a wrapped error when the \<open>NeedsUpdate\<close> call fails.
  The error is built by \<open>xerrors.Errorf\<close> from the message alone, without \<open>%w\<close> and
  without the error of \<open>NeedsUpdate\<close>: it wraps nothing, and its text is the message only.
\<close>

theorem needsUpdate_error_not_wrapped_counterexample:
  "fst (update needsUpdate_error_env ''1'' ''cache'' fresh_world)
     = Returns (Some (New ''failed to check if db needs an update''))
   \<and> Unwrap (New ''failed to check if db needs an update'') = None
   \<and> Error (New ''failed to check if db needs an update'')
       = ''failed to check if db needs an update''
   \<and> NeedsUpdate needsUpdate_error_env ''1'' False False = (False, Some (New ''fail''))"
  by (simp add: update_def updateLastDBUpdatePrometheus_def call_NeedsUpdate_def gauge_Set_def
      emit_def needsUpdate_error_env_def happy_env_def fresh_world_def)

text \<open>
  C9, amended: in a cycle whose \<open>NeedsUpdate\<close> call returns an error, \<open>update\<close> returns
  an error with the message \<open>failed to check if db needs an update\<close> that does not wrap
  the error of \<open>NeedsUpdate\<close>, and all the cycle has done is to set the attempt sample and
  to call \<open>NeedsUpdate\<close>: no download, no swap, the wait groups untouched.
\<close>

theorem needsUpdate_failure_aborts:
  assumes "gaugeMetric s = Some g" and "NeedsUpdate e v False False = (b, Some err)"
  shows "update e v cacheDir s =
       (Returns (Some (New ''failed to check if db needs an update'')),
        s\<lparr>gaugeMetric := Some (g(''last_db_update_attempt'' \<mapsto> now_attempt e)),
          trace := trace s @ [Gauge_Set ''last_db_update_attempt'' (now_attempt e),
                              NeedsUpdate_call v False False]\<rparr>)
     \<and> Error (New ''failed to check if db needs an update'')
         = ''failed to check if db needs an update''
     \<and> Unwrap (New ''failed to check if db needs an update'') = None"
  by (simp add: update_with_gauge [OF assms refl])

theorem needsUpdate_failure_aborts_witness:
  "gaugeMetric fresh_world = Some Map.empty
   \<and> NeedsUpdate needsUpdate_error_env ''1'' False False = (False, Some (New ''fail''))
   \<and> update needsUpdate_error_env ''1'' ''cache'' fresh_world =
       (Returns (Some (New ''failed to check if db needs an update'')),
        fresh_world\<lparr>gaugeMetric := Some [''last_db_update_attempt'' \<mapsto> 100],
          trace := [Gauge_Set ''last_db_update_attempt'' 100, NeedsUpdate_call ''1'' False False]\<rparr>)"
proof -
  have h1: "gaugeMetric fresh_world = Some Map.empty"
    by (simp add: fresh_world_def)
  have h2: "NeedsUpdate needsUpdate_error_env ''1'' False False = (False, Some (New ''fail''))"
    by (simp add: needsUpdate_error_env_def happy_env_def)
  have t: "now_attempt needsUpdate_error_env = 100" "trace fresh_world = []"
    by (simp_all add: needsUpdate_error_env_def happy_env_def fresh_world_def)
  from needsUpdate_failure_aborts [OF h1 h2, of "''cache''"] h1 h2 t show ?thesis
    by simp
qed

subsection \<open>C10: a nil gauge blocks every update\<close>

text \<open>
  C10: with a nil gauge every cycle of the scheduler loop returns the gauge error and
  leaves the state as it was: \<open>NeedsUpdate\<close> is never called, nothing is downloaded and
  the database file is never replaced. That is the case in particular after a failed
  seeding of the gauge at the start of the goroutine, which sets the gauge to nil.
\<close>

theorem nil_gauge_blocks_updates:
  "(gaugeMetric s = None \<longrightarrow>
      scheduler_loop es v cacheDir s =
        (replicate (length es)
           (Returns (Some (Errorf_w (New ''Prometheus gauge found to be nil'')))), s))
   \<and> (fst (initializeMetricGauge Get t) = Some err \<longrightarrow>
        worker_goroutine Get es2 v2 cacheDir2 t =
          (Some err,
           replicate (length es2)
             (Returns (Some (Errorf_w (New ''Prometheus gauge found to be nil'')))),
           t\<lparr>gaugeMetric := None\<rparr>))"
proof (intro conjI impI)
  assume "gaugeMetric s = None"
  then show "scheduler_loop es v cacheDir s =
        (replicate (length es)
           (Returns (Some (Errorf_w (New ''Prometheus gauge found to be nil'')))), s)"
    by (rule scheduler_loop_nil_gauge)
next
  assume f: "fst (initializeMetricGauge Get t) = Some err"
  then obtain t1 where i: "initializeMetricGauge Get t = (Some err, t1)"
    by (cases "initializeMetricGauge Get t") simp
  then have "t1 = t"
    by (rule initializeMetricGauge_failure_keeps_state)
  with i show "worker_goroutine Get es2 v2 cacheDir2 t =
          (Some err,
           replicate (length es2)
             (Returns (Some (Errorf_w (New ''Prometheus gauge found to be nil'')))),
           t\<lparr>gaugeMetric := None\<rparr>)"
    by (simp add: worker_goroutine_def scheduler_loop_nil_gauge)
qed

text \<open>
  Two cycles with a nil gauge; and the goroutine when reading the metadata fails, with a
  client that asks for an update in each of the two cycles.
\<close>

theorem nil_gauge_blocks_updates_witness:
  "gaugeMetric nil_gauge_world = None
   \<and> scheduler_loop [happy_env, happy_env] ''1'' ''cache'' nil_gauge_world =
       ([Returns (Some (Errorf_w (New ''Prometheus gauge found to be nil''))),
         Returns (Some (Errorf_w (New ''Prometheus gauge found to be nil'')))], nil_gauge_world)
   \<and> fst (initializeMetricGauge (0, Some (New ''no metadata'')) fresh_world)
       = Some (Wrapped ''Error initialising the metrics for prometheus endpoint''
                 (New ''no metadata''))
   \<and> worker_goroutine (0, Some (New ''no metadata'')) [happy_env, happy_env] ''1'' ''cache''
         fresh_world =
       (Some (Wrapped ''Error initialising the metrics for prometheus endpoint''
                (New ''no metadata'')),
        [Returns (Some (Errorf_w (New ''Prometheus gauge found to be nil''))),
         Returns (Some (Errorf_w (New ''Prometheus gauge found to be nil'')))],
        fresh_world\<lparr>gaugeMetric := None\<rparr>)"
proof -
  have h1: "gaugeMetric nil_gauge_world = None"
    by (simp add: nil_gauge_world_def)
  have h2: "fst (initializeMetricGauge (0, Some (New ''no metadata'')) fresh_world)
       = Some (Wrapped ''Error initialising the metrics for prometheus endpoint''
                 (New ''no metadata''))"
    by (simp add: initializeMetricGauge_def)
  from nil_gauge_blocks_updates [of nil_gauge_world "[happy_env, happy_env]" "''1''" "''cache''"
      "(0, Some (New ''no metadata''))" fresh_world
      "Wrapped ''Error initialising the metrics for prometheus endpoint'' (New ''no metadata'')"
      "[happy_env, happy_env]" "''1''" "''cache''"] h1 h2
  show ?thesis by simp
qed


end
